theory Spec2Isabelle
  imports Complex_Main "HOL-Library.Sublist"
begin

section \<open>The upload page of hello-inference (apps/www/app/page.tsx)\<close>

text \<open>
  The page keeps seven pieces of React state, validates a selected file with a schema,
  posts it to \<^verbatim>\<open>/analyze\<close>, parses the answer with a second schema and polls
  \<^verbatim>\<open>/health\<close>. The handlers are embedded as functions from the state before
  to the state after; what a handler reads from the outside (the selected file, the
  outcome of a fetch, whether the effect is still mounted) is an argument.

  JavaScript strings are modelled as \<^typ>\<open>string\<close>. The page only compares,
  concatenates and takes prefixes and suffixes of strings against ASCII literals, which
  behaves the same on any sequence of code units.
\<close>

subsection \<open>JavaScript values\<close>

text \<open>
  A JavaScript number is a finite value, one of the two infinities, or NaN. The finite
  doubles are rationals; the model admits every rational, so what is proved for all finite
  values holds for the doubles among them. Negative zero is identified with zero:
  \<^verbatim>\<open>-0 < 0\<close> is false and \<^verbatim>\<open>Number.isInteger(-0)\<close> is true, as for zero.
\<close>

datatype jsnum = Finite rat | PosInfinity | NegInfinity | NaN

text \<open>The value that \<^verbatim>\<open>res.json()\<close> resolves to.\<close>

datatype json =
    JNull
  | JBool bool
  | JNumber jsnum
  | JString string
  | JArray "json list"
  | JObject "(string \<times> json) list"

text \<open>Something thrown: an \<^verbatim>\<open>Error\<close> with its message, or any other value.\<close>

datatype thrown = Error string | NonError

fun isNaN :: "jsnum \<Rightarrow> bool" where
  "isNaN NaN = True"
| "isNaN _ = False"

fun isFinite :: "jsnum \<Rightarrow> bool" where
  "isFinite (Finite q) = True"
| "isFinite _ = False"

fun isInteger :: "jsnum \<Rightarrow> bool" where
  "isInteger (Finite q) = (q = of_int \<lfloor>q\<rfloor>)"
| "isInteger _ = False"

text \<open>The comparison \<^verbatim>\<open>x < 0\<close>: false for NaN and for plus infinity.\<close>

fun lt_zero :: "jsnum \<Rightarrow> bool" where
  "lt_zero (Finite q) = (q < 0)"
| "lt_zero NegInfinity = True"
| "lt_zero _ = False"

definition startsWith :: "string \<Rightarrow> string \<Rightarrow> bool" where
  "startsWith s p = (take (length p) s = p)"

definition endsWith :: "string \<Rightarrow> string \<Rightarrow> bool" where
  "endsWith s p = (length p \<le> length s \<and> drop (length s - length p) s = p)"

text \<open>
  Property access \<^verbatim>\<open>data[key]\<close> on a parsed object, whose properties are listed with
  distinct keys: \<open>None\<close> is undefined.
\<close>

definition get_prop :: "(string \<times> json) list \<Rightarrow> string \<Rightarrow> json option" where
  "get_prop ps k = map_of ps k"

text \<open>A non-negative integer in a template literal: its decimal digits.\<close>

definition digit :: "nat \<Rightarrow> char" where
  "digit d = char_of (48 + d)"

fun show_nat :: "nat \<Rightarrow> string" where
  "show_nat n = (if n < 10 then [digit n] else show_nat (n div 10) @ [digit (n mod 10)])"

subsection \<open>The schema library\<close>

text \<open>
  The schemas are built with the zod library, which is not part of the repository. The
  page reads \<^verbatim>\<open>parsed.error.errors\<close>, the accessor of zod 3, so the
  combinators below follow zod 3:
  \<^item> \<^verbatim>\<open>z.number()\<close> accepts every value of type number except NaN; the
    infinities are accepted unless \<^verbatim>\<open>.finite()\<close> is added;
  \<^item> \<^verbatim>\<open>.int()\<close> requires \<^verbatim>\<open>Number.isInteger\<close>;
  \<^item> \<^verbatim>\<open>.nonnegative()\<close> rejects exactly the values with \<^verbatim>\<open>x < 0\<close>;
  \<^item> \<^verbatim>\<open>z.string().min(1)\<close> accepts the strings of length at least 1;
  \<^item> \<^verbatim>\<open>z.literal(v)\<close> accepts exactly \<open>v\<close>;
  \<^item> \<^verbatim>\<open>z.object(shape)\<close> accepts an object (not null, not an array) each of
    whose shape keys parses, a missing key being undefined; keys outside the shape are
    dropped from the output;
  \<^item> \<^verbatim>\<open>.refine(p, {message})\<close> runs after the inner schema, also when an
    earlier refinement has failed, and adds an issue with the message when \<open>p\<close> is false.
  A schema whose issues are not read is a function to \<open>option\<close>: \<open>None\<close> is
  \<^verbatim>\<open>success: false\<close>, \<open>Some d\<close> is \<^verbatim>\<open>success: true\<close> with \<^verbatim>\<open>data\<close> \<open>d\<close>.
\<close>

definition z_number :: "json option \<Rightarrow> jsnum option" where
  "z_number v = (case v of Some (JNumber x) \<Rightarrow> (if isNaN x then None else Some x) | _ \<Rightarrow> None)"

definition z_int :: "jsnum option \<Rightarrow> jsnum option" where
  "z_int v = (case v of Some x \<Rightarrow> (if isInteger x then Some x else None) | None \<Rightarrow> None)"

definition z_nonnegative :: "jsnum option \<Rightarrow> jsnum option" where
  "z_nonnegative v = (case v of Some x \<Rightarrow> (if lt_zero x then None else Some x) | None \<Rightarrow> None)"

definition z_string_min :: "nat \<Rightarrow> json option \<Rightarrow> string option" where
  "z_string_min n v =
     (case v of Some (JString s) \<Rightarrow> (if length s < n then None else Some s) | _ \<Rightarrow> None)"

definition z_literal :: "string \<Rightarrow> json option \<Rightarrow> string option" where
  "z_literal lit v = (case v of Some (JString s) \<Rightarrow> (if s = lit then Some s else None) | _ \<Rightarrow> None)"

subsection \<open>Constants and schemas of the page\<close>

definition MAX_BYTES :: nat where
  "MAX_BYTES = 10 * 1024 * 1024"

record Metadata =
  width :: jsnum
  height :: jsnum
  durationSeconds :: jsnum
  frameRate :: jsnum

record AnalyzeResponse =
  resp_id :: string
  metadata :: Metadata

definition MetadataSchema :: "json option \<Rightarrow> Metadata option" where
  "MetadataSchema v =
     (case v of
        Some (JObject ps) \<Rightarrow>
          (case (z_nonnegative (z_int (z_number (get_prop ps ''width''))),
                 z_nonnegative (z_int (z_number (get_prop ps ''height''))),
                 z_nonnegative (z_number (get_prop ps ''durationSeconds'')),
                 z_nonnegative (z_number (get_prop ps ''frameRate''))) of
             (Some w, Some h, Some d, Some r) \<Rightarrow>
               Some \<lparr>width = w, height = h, durationSeconds = d, frameRate = r\<rparr>
           | _ \<Rightarrow> None)
      | _ \<Rightarrow> None)"

definition AnalyzeResponseSchema :: "json \<Rightarrow> AnalyzeResponse option" where
  "AnalyzeResponseSchema v =
     (case v of
        JObject ps \<Rightarrow>
          (case (z_string_min 1 (get_prop ps ''id''), MetadataSchema (get_prop ps ''metadata'')) of
             (Some i, Some m) \<Rightarrow> Some \<lparr>resp_id = i, metadata = m\<rparr>
           | _ \<Rightarrow> None)
      | _ \<Rightarrow> None)"

text \<open>Only \<^verbatim>\<open>success\<close> of the health schema is read.\<close>

definition HealthResponseSchema :: "json \<Rightarrow> bool" where
  "HealthResponseSchema v =
     (case v of JObject ps \<Rightarrow> z_literal ''ok'' (get_prop ps ''status'') \<noteq> None | _ \<Rightarrow> False)"

text \<open>
  A \<^verbatim>\<open>File\<close> of the browser: its size in bytes, its declared content type and
  its name. The value handed to \<^verbatim>\<open>FileSchema\<close> comes from a file input, so the
  \<^verbatim>\<open>instanceof File\<close> test always passes.
\<close>

record File =
  file_size :: nat
  file_type :: string
  file_name :: string

text \<open>
  \<^verbatim>\<open>FileSchema.safeParse\<close>: the messages of the issues, in the order of the two
  refinements; the parse succeeds when there is none.
\<close>

definition FileSchema :: "File \<Rightarrow> string list" where
  "FileSchema f =
     (if file_size f \<le> MAX_BYTES then [] else [''Video must be 10MB or less.'']) @
     (if startsWith (file_type f) ''video/'' \<or> endsWith (file_name f) ''.mp4'' then []
      else [''Please upload a video file.''])"

subsection \<open>State, requests and responses\<close>

record state =
  file_st :: "File option"
  error :: "string option"
  loading :: bool
  response :: "AnalyzeResponse option"
  isModalUp :: bool
  isChecking :: bool
  lastCheckedAt :: "nat option"

definition initial :: state where
  "initial = \<lparr>file_st = None, error = None, loading = False, response = None,
              isModalUp = False, isChecking = False, lastCheckedAt = None\<rparr>"

record request =
  req_method :: string
  req_url :: string
  req_body :: "File option"

text \<open>
  A response as the page reads it: \<^verbatim>\<open>res.ok\<close>, \<^verbatim>\<open>res.status\<close>, and what
  \<^verbatim>\<open>await res.text()\<close> and \<^verbatim>\<open>await res.json()\<close> give (\<open>Inl\<close> when the promise
  rejects, as \<^verbatim>\<open>res.json()\<close> does on a body that is not JSON).
\<close>

record http_response =
  res_ok :: bool
  res_status :: nat
  res_text :: "thrown + string"
  res_json :: "thrown + json"

datatype fetch_result = Rejected thrown | Resolved http_response

subsection \<open>Base URL and request URLs\<close>

text \<open>\<^verbatim>\<open>raw.replace(/\/$/, "")\<close>: the pattern matches one slash at the end of the input.\<close>

definition strip_trailing_slash :: "string \<Rightarrow> string" where
  "strip_trailing_slash raw = (if raw \<noteq> [] \<and> last raw = CHR ''/'' then butlast raw else raw)"

text \<open>The argument is the environment variable, \<open>None\<close> when it is not set.\<close>

definition baseUrl :: "string option \<Rightarrow> string" where
  "baseUrl env = strip_trailing_slash (case env of None \<Rightarrow> [] | Some raw \<Rightarrow> raw)"

definition healthUrl :: "string \<Rightarrow> string" where
  "healthUrl base = base @ ''/health''"

definition analyzeUrl :: "string \<Rightarrow> string" where
  "analyzeUrl base = base @ ''/analyze''"

definition videoUrl :: "string \<Rightarrow> state \<Rightarrow> string option" where
  "videoUrl base s =
     (case response s of Some r \<Rightarrow> Some (base @ ''/video/'' @ resp_id r) | None \<Rightarrow> None)"

subsection \<open>Handlers\<close>

text \<open>
  The argument \<open>selected\<close> is \<^verbatim>\<open>event.target.files?.[0] ?? null\<close>. The parse
  fails exactly when the list of issues is not empty, so the fallback message
  \<^verbatim>\<open>"Invalid file."\<close> for a failed parse without a first issue has no branch.
\<close>

definition onFileChange :: "File option \<Rightarrow> state \<Rightarrow> state" where
  "onFileChange selected s =
     (let s1 = s\<lparr>error := None, response := None\<rparr> in
      case selected of
        None \<Rightarrow> s1\<lparr>file_st := None\<rparr>
      | Some f \<Rightarrow>
          (case FileSchema f of
             [] \<Rightarrow> s1\<lparr>file_st := Some f\<rparr>
           | m # _ \<Rightarrow> s1\<lparr>file_st := None, error := Some m\<rparr>))"

text \<open>\<^verbatim>\<open>err instanceof Error ? err.message : "Upload failed."\<close>\<close>

fun upload_message :: "thrown \<Rightarrow> string" where
  "upload_message (Error m) = m"
| "upload_message NonError = ''Upload failed.''"

text \<open>The body of the \<^verbatim>\<open>try\<close> block of \<^verbatim>\<open>onUpload\<close>: what is thrown, or the parsed data.\<close>

definition analyze_attempt :: "fetch_result \<Rightarrow> thrown + AnalyzeResponse" where
  "analyze_attempt r =
     (case r of
        Rejected e \<Rightarrow> Inl e
      | Resolved res \<Rightarrow>
          if \<not> res_ok res then
            (case res_text res of
               Inl e \<Rightarrow> Inl e
             | Inr text \<Rightarrow>
                 Inl (Error (if text \<noteq> [] then text
                             else ''Upload failed with status '' @ show_nat (res_status res))))
          else
            (case res_json res of
               Inl e \<Rightarrow> Inl e
             | Inr j \<Rightarrow>
                 (case AnalyzeResponseSchema j of
                    None \<Rightarrow> Inl (Error ''Modal response failed validation.'')
                  | Some d \<Rightarrow> Inr d)))"

text \<open>
  \<^verbatim>\<open>onUpload\<close> is asynchronous. Its first part runs up to the call of
  \<^verbatim>\<open>fetch\<close>: the guards, the three state updates, and the request it issues
  (\<open>None\<close> when it returns early).
\<close>

definition onUpload_start :: "string \<Rightarrow> state \<Rightarrow> state \<times> request option" where
  "onUpload_start base s =
     (case file_st s of
        None \<Rightarrow> (s, None)
      | Some f \<Rightarrow>
          if base = [] then (s\<lparr>error := Some ''Missing NEXT_PUBLIC_MODAL_BASE_URL env var.''\<rparr>, None)
          else (s\<lparr>loading := True, error := None, response := None\<rparr>,
                Some \<lparr>req_method = ''POST'', req_url = analyzeUrl base, req_body = Some f\<rparr>))"

text \<open>Its second part runs when the fetch has settled, on the state of that moment.\<close>

definition onUpload_settle :: "fetch_result \<Rightarrow> state \<Rightarrow> state" where
  "onUpload_settle r s =
     (case analyze_attempt r of
        Inr d \<Rightarrow> s\<lparr>response := Some d\<rparr>
      | Inl e \<Rightarrow> s\<lparr>error := Some (upload_message e)\<rparr>)\<lparr>loading := False\<rparr>"

text \<open>
  One upload with nothing in between: the state after, and the requests issued.
  \<open>fetch\<close> stands for the network: the outcome of each request.
\<close>

definition onUpload :: "string \<Rightarrow> (request \<Rightarrow> fetch_result) \<Rightarrow> state \<Rightarrow> state \<times> request list" where
  "onUpload base fetch s =
     (case onUpload_start base s of
        (s1, None) \<Rightarrow> (s1, [])
      | (s1, Some req) \<Rightarrow> (onUpload_settle (fetch req) s1, [req]))"

text \<open>The body of the \<^verbatim>\<open>try\<close> block of \<^verbatim>\<open>checkHealth\<close>; a throw is caught as \<open>False\<close>.\<close>

definition health_attempt :: "fetch_result \<Rightarrow> bool" where
  "health_attempt r =
     (case r of
        Rejected e \<Rightarrow> False
      | Resolved res \<Rightarrow>
          if \<not> res_ok res then False
          else (case res_json res of Inl e \<Rightarrow> False | Inr j \<Rightarrow> HealthResponseSchema j))"

text \<open>
  \<^verbatim>\<open>checkHealth\<close> in the same two parts. \<open>isMounted\<close> is the flag of the enclosing
  effect at the time the fetch settles (the cleanup of the effect sets it to false);
  \<open>now\<close> is that time.
\<close>

definition checkHealth_start :: "string \<Rightarrow> state \<Rightarrow> state \<times> request" where
  "checkHealth_start base s =
     (s\<lparr>isChecking := True\<rparr>,
      \<lparr>req_method = ''GET'', req_url = healthUrl base, req_body = None\<rparr>)"

definition checkHealth_settle :: "bool \<Rightarrow> nat \<Rightarrow> fetch_result \<Rightarrow> state \<Rightarrow> state" where
  "checkHealth_settle isMounted now r s =
     (if isMounted
      then s\<lparr>isModalUp := health_attempt r, lastCheckedAt := Some now, isChecking := False\<rparr>
      else s)"

definition checkHealth ::
  "bool \<Rightarrow> nat \<Rightarrow> string \<Rightarrow> (request \<Rightarrow> fetch_result) \<Rightarrow> state \<Rightarrow> state \<times> request list" where
  "checkHealth isMounted now base fetch s =
     (case checkHealth_start base s of
        (s1, req) \<Rightarrow> (checkHealth_settle isMounted now (fetch req) s1, [req]))"

subsection \<open>Runs of the page\<close>

text \<open>
  What happens to the page, one event at a time: the effect runs on mount, a file is
  selected, the upload button is clicked, the interval fires, a fetch settles. A settling
  event carries the outcome of its fetch. The model lets a fetch settle at any time, so
  the runs of the page are among the runs of the model, and what holds after every run of
  the model holds on the page.
\<close>

datatype event =
    Mount
  | FileChange "File option"
  | UploadStart
  | UploadSettle fetch_result
  | HealthStart
  | HealthSettle bool nat fetch_result

text \<open>With an empty base URL the effect marks the service as offline and starts no poll.\<close>

fun step :: "string \<Rightarrow> state \<Rightarrow> event \<Rightarrow> state" where
  "step base s Mount = (if base = [] then s\<lparr>isModalUp := False\<rparr> else s)"
| "step base s (FileChange selected) = onFileChange selected s"
| "step base s UploadStart = fst (onUpload_start base s)"
| "step base s (UploadSettle r) = onUpload_settle r s"
| "step base s HealthStart = (if base = [] then s else fst (checkHealth_start base s))"
| "step base s (HealthSettle isMounted now r) =
     (if base = [] then s else checkHealth_settle isMounted now r s)"

definition run :: "string \<Rightarrow> event list \<Rightarrow> state" where
  "run base evs = foldl (step base) initial evs"

subsection \<open>The response contract in the words of the specification\<close>

text \<open>
  The contract of a successful \<^verbatim>\<open>/analyze\<close> response as the specification words it:
  an object with a non-empty string \<^verbatim>\<open>id\<close> and an object \<^verbatim>\<open>metadata\<close> whose
  \<^verbatim>\<open>width\<close> and \<^verbatim>\<open>height\<close> are integers and whose \<^verbatim>\<open>durationSeconds\<close> and
  \<^verbatim>\<open>frameRate\<close> are numbers. It is compared with \<open>AnalyzeResponseSchema\<close>, which
  is the code.
\<close>

definition spec_is_integer :: "json option \<Rightarrow> bool" where
  "spec_is_integer v = (case v of Some (JNumber x) \<Rightarrow> isInteger x | _ \<Rightarrow> False)"

definition spec_is_number :: "json option \<Rightarrow> bool" where
  "spec_is_number v = (case v of Some (JNumber x) \<Rightarrow> True | _ \<Rightarrow> False)"

definition spec_response_contract :: "json \<Rightarrow> bool" where
  "spec_response_contract j =
     (case j of
        JObject ps \<Rightarrow>
          (case get_prop ps ''id'' of Some (JString i) \<Rightarrow> i \<noteq> [] | _ \<Rightarrow> False) \<and>
          (case get_prop ps ''metadata'' of
             Some (JObject ms) \<Rightarrow>
               spec_is_integer (get_prop ms ''width'') \<and>
               spec_is_integer (get_prop ms ''height'') \<and>
               spec_is_number (get_prop ms ''durationSeconds'') \<and>
               spec_is_number (get_prop ms ''frameRate'')
           | _ \<Rightarrow> False)
      | _ \<Rightarrow> False)"

subsection \<open>Concrete inputs\<close>

definition clip :: File where
  "clip = \<lparr>file_size = 1024, file_type = ''video/mp4'', file_name = ''clip.mp4''\<rparr>"

definition big_clip :: File where
  "big_clip = \<lparr>file_size = 10485761, file_type = ''video/mp4'', file_name = ''big.mp4''\<rparr>"

definition text_file :: File where
  "text_file = \<lparr>file_size = 2048, file_type = ''text/plain'', file_name = ''notes.MP4''\<rparr>"

definition meta_json :: "jsnum \<Rightarrow> json" where
  "meta_json d =
     JObject [(''width'', JNumber (Finite 1920)), (''height'', JNumber (Finite 1080)),
              (''durationSeconds'', JNumber d), (''frameRate'', JNumber (Finite 30))]"

definition body_json :: "string \<Rightarrow> jsnum \<Rightarrow> json" where
  "body_json i d = JObject [(''id'', JString i), (''metadata'', meta_json d)]"

definition body_string_width :: json where
  "body_string_width =
     JObject [(''id'', JString ''a''),
              (''metadata'', JObject [(''width'', JString ''1920''), (''height'', JNumber (Finite 1080)),
                 (''durationSeconds'', JNumber (Finite 5)), (''frameRate'', JNumber (Finite 30))])]"

text \<open>A response with an ok status whose body parses to \<open>j\<close>.\<close>

definition ok_response :: "json \<Rightarrow> http_response" where
  "ok_response j = \<lparr>res_ok = True, res_status = 200, res_text = Inr ''{...}'', res_json = Inr j\<rparr>"

definition health_ok :: http_response where
  "health_ok = ok_response (JObject [(''status'', JString ''ok'')])"

text \<open>The properties of a metadata object with the four fields given, and a body around them.\<close>

definition meta_props :: "jsnum \<Rightarrow> jsnum \<Rightarrow> jsnum \<Rightarrow> jsnum \<Rightarrow> (string \<times> json) list" where
  "meta_props w h d f =
     [(''width'', JNumber w), (''height'', JNumber h),
      (''durationSeconds'', JNumber d), (''frameRate'', JNumber f)]"

definition body_props :: "(string \<times> json) list \<Rightarrow> (string \<times> json) list" where
  "body_props ms = [(''id'', JString ''a''), (''metadata'', JObject ms)]"

section \<open>Verification\<close>

subsection \<open>Strings and constants\<close>

lemma startsWith_prefix: "startsWith s p = prefix p s"
  by (auto simp: startsWith_def prefix_def) (metis append_take_drop_id)

lemma endsWith_suffix: "endsWith s p = suffix p s"
  unfolding endsWith_def suffix_def
proof
  assume "length p \<le> length s \<and> drop (length s - length p) s = p"
  then have "s = take (length s - length p) s @ p"
    by (metis append_take_drop_id)
  then show "\<exists>zs. s = zs @ p" ..
next
  assume "\<exists>zs. s = zs @ p"
  then show "length p \<le> length s \<and> drop (length s - length p) s = p"
    by auto
qed

lemma MAX_BYTES_value: "MAX_BYTES = 10485760"
  by (simp add: MAX_BYTES_def)

lemma strip_trailing_slash_snoc: "strip_trailing_slash (raw @ ''/'') = raw"
  by (simp add: strip_trailing_slash_def)

lemma strip_trailing_slash_id: "\<not> endsWith raw ''/'' \<Longrightarrow> strip_trailing_slash raw = raw"
  by (cases raw rule: rev_cases) (auto simp: strip_trailing_slash_def endsWith_def)

subsection \<open>The upload, when a request is sent\<close>

lemma onUpload_no_file: "file_st s = None \<Longrightarrow> onUpload base fetch s = (s, [])"
  by (simp add: onUpload_def onUpload_start_def)

lemma onUpload_sent:
  "file_st s = Some f \<Longrightarrow> base \<noteq> [] \<Longrightarrow>
   onUpload base fetch s =
     ((case analyze_attempt
              (fetch \<lparr>req_method = ''POST'', req_url = analyzeUrl base, req_body = Some f\<rparr>) of
         Inr d \<Rightarrow> s\<lparr>loading := False, error := None, response := Some d\<rparr>
       | Inl e \<Rightarrow> s\<lparr>loading := False, error := Some (upload_message e), response := None\<rparr>),
      [\<lparr>req_method = ''POST'', req_url = analyzeUrl base, req_body = Some f\<rparr>])"
  by (simp add: onUpload_def onUpload_start_def onUpload_settle_def split: sum.splits)

subsection \<open>What the schemas accept\<close>

lemma MetadataSchema_Some:
  "MetadataSchema v = Some m \<Longrightarrow>
   (\<exists>ps. v = Some (JObject ps) \<and>
      get_prop ps ''width'' = Some (JNumber (width m)) \<and>
      get_prop ps ''height'' = Some (JNumber (height m)) \<and>
      get_prop ps ''durationSeconds'' = Some (JNumber (durationSeconds m)) \<and>
      get_prop ps ''frameRate'' = Some (JNumber (frameRate m))) \<and>
   isInteger (width m) \<and> \<not> lt_zero (width m) \<and>
   isInteger (height m) \<and> \<not> lt_zero (height m) \<and>
   \<not> isNaN (durationSeconds m) \<and> \<not> lt_zero (durationSeconds m) \<and>
   \<not> isNaN (frameRate m) \<and> \<not> lt_zero (frameRate m)"
  by (auto simp: MetadataSchema_def z_nonnegative_def z_int_def z_number_def
      split: option.splits json.splits if_splits)

lemma AnalyzeResponseSchema_Some:
  "AnalyzeResponseSchema j = Some r \<Longrightarrow>
   \<exists>ps. j = JObject ps \<and> get_prop ps ''id'' = Some (JString (resp_id r)) \<and> resp_id r \<noteq> [] \<and>
        MetadataSchema (get_prop ps ''metadata'') = Some (metadata r)"
  by (auto simp: AnalyzeResponseSchema_def z_string_min_def
      split: option.splits json.splits if_splits)

lemma outside_contract_rejected:
  assumes "\<not> spec_response_contract j"
  shows "AnalyzeResponseSchema j = None"
proof (rule ccontr)
  assume "AnalyzeResponseSchema j \<noteq> None"
  then obtain r where r: "AnalyzeResponseSchema j = Some r"
    by auto
  from AnalyzeResponseSchema_Some [OF r] obtain ps where
    ps: "j = JObject ps" "get_prop ps ''id'' = Some (JString (resp_id r))" "resp_id r \<noteq> []"
      "MetadataSchema (get_prop ps ''metadata'') = Some (metadata r)"
    by blast
  from MetadataSchema_Some [OF ps(4)] ps(1-3) have "spec_response_contract j"
    by (auto simp: spec_response_contract_def spec_is_integer_def spec_is_number_def)
  with assms show False
    by simp
qed

lemma nonneg_integer:
  assumes "isInteger x" and "\<not> lt_zero x"
  shows "\<exists>n::nat. x = Finite (of_nat n)"
proof (cases x)
  case (Finite q)
  with assms have q: "q = of_int \<lfloor>q\<rfloor>" "0 \<le> q"
    by simp_all
  then have "0 \<le> \<lfloor>q\<rfloor>"
    by simp
  then have "of_int \<lfloor>q\<rfloor> = (of_nat (nat \<lfloor>q\<rfloor>) :: rat)"
    by simp
  with q Finite show ?thesis
    by metis
qed (use assms in simp_all)

lemma nonneg_number:
  "\<not> isNaN x \<Longrightarrow> \<not> lt_zero x \<Longrightarrow> x = PosInfinity \<or> (\<exists>q. x = Finite q \<and> 0 \<le> q)"
  by (cases x) simp_all

subsection \<open>The response held by the page was accepted by the schema\<close>

lemma step_response:
  "response (step base s ev) = Some r \<Longrightarrow>
   response s = Some r \<or> (\<exists>j. AnalyzeResponseSchema j = Some r)"
  by (cases ev)
    (auto simp: onFileChange_def onUpload_start_def onUpload_settle_def analyze_attempt_def
      checkHealth_start_def checkHealth_settle_def Let_def
      split: option.splits list.splits if_splits sum.splits fetch_result.splits)

lemma foldl_step_response:
  "response (foldl (step base) s evs) = Some r \<Longrightarrow>
   response s = Some r \<or> (\<exists>j. AnalyzeResponseSchema j = Some r)"
proof (induction evs arbitrary: s)
  case Nil
  then show ?case
    by simp
next
  case (Cons ev evs)
  from Cons.prems have "response (foldl (step base) (step base s ev) evs) = Some r"
    by simp
  from Cons.IH [OF this] show ?case
    using step_response [of base s ev r] by blast
qed

lemma run_response:
  "response (run base evs) = Some r \<Longrightarrow> \<exists>j. AnalyzeResponseSchema j = Some r"
  using foldl_step_response [of base initial evs r] by (simp add: run_def initial_def)

subsection \<open>The schemas, characterised by their input\<close>

lemma z_nonnegative_int_iff:
  "(z_nonnegative (z_int (z_number v)) = Some x) =
     (v = Some (JNumber x) \<and> (\<exists>n::nat. x = Finite (of_nat n)))"
proof
  assume a: "z_nonnegative (z_int (z_number v)) = Some x"
  then have "v = Some (JNumber x)" "isInteger x" "\<not> lt_zero x"
    by (auto simp: z_nonnegative_def z_int_def z_number_def
        split: option.splits json.splits if_splits)
  then show "v = Some (JNumber x) \<and> (\<exists>n::nat. x = Finite (of_nat n))"
    by (simp add: nonneg_integer)
next
  assume "v = Some (JNumber x) \<and> (\<exists>n::nat. x = Finite (of_nat n))"
  then show "z_nonnegative (z_int (z_number v)) = Some x"
    by (auto simp: z_nonnegative_def z_int_def z_number_def)
qed

lemma z_nonnegative_number_iff:
  "(z_nonnegative (z_number v) = Some x) =
     (v = Some (JNumber x) \<and> (x = PosInfinity \<or> (\<exists>q. x = Finite q \<and> 0 \<le> q)))"
proof
  assume a: "z_nonnegative (z_number v) = Some x"
  then have "v = Some (JNumber x)" "\<not> isNaN x" "\<not> lt_zero x"
    by (auto simp: z_nonnegative_def z_number_def split: option.splits json.splits if_splits)
  then show "v = Some (JNumber x) \<and> (x = PosInfinity \<or> (\<exists>q. x = Finite q \<and> 0 \<le> q))"
    by (simp add: nonneg_number)
next
  assume "v = Some (JNumber x) \<and> (x = PosInfinity \<or> (\<exists>q. x = Finite q \<and> 0 \<le> q))"
  then show "z_nonnegative (z_number v) = Some x"
    by (auto simp: z_nonnegative_def z_number_def)
qed

lemma MetadataSchema_iff:
  "(MetadataSchema v = Some m) =
     (\<exists>ms. v = Some (JObject ms) \<and>
        z_nonnegative (z_int (z_number (get_prop ms ''width''))) = Some (width m) \<and>
        z_nonnegative (z_int (z_number (get_prop ms ''height''))) = Some (height m) \<and>
        z_nonnegative (z_number (get_prop ms ''durationSeconds'')) = Some (durationSeconds m) \<and>
        z_nonnegative (z_number (get_prop ms ''frameRate'')) = Some (frameRate m))"
  by (cases m) (auto simp: MetadataSchema_def split: option.splits json.splits)

lemma AnalyzeResponseSchema_iff:
  "(AnalyzeResponseSchema j = Some r) =
     (\<exists>ps. j = JObject ps \<and> get_prop ps ''id'' = Some (JString (resp_id r)) \<and> resp_id r \<noteq> [] \<and>
        MetadataSchema (get_prop ps ''metadata'') = Some (metadata r))"
  by (cases r) (auto simp: AnalyzeResponseSchema_def z_string_min_def
      split: option.splits json.splits if_splits)

lemma half_not_nat: "(1 / 2 :: rat) \<noteq> of_nat n"
proof
  assume "(1 / 2 :: rat) = of_nat n"
  then have "(of_nat (2 * n) :: rat) = of_nat 1"
    by simp
  then have "2 * n = 1"
    unfolding of_nat_eq_iff .
  then show False
    by presburger
qed

lemma negative_not_nat: "q < 0 \<Longrightarrow> (q :: rat) \<noteq> of_nat n"
  by (metis of_nat_0_le_iff not_less)

subsection \<open>No response appears without a settling upload\<close>



subsection \<open>Evaluations at the concrete inputs\<close>

lemma FileSchema_clip: "FileSchema clip = []"
  by (simp add: FileSchema_def clip_def MAX_BYTES_def startsWith_def)


lemma FileSchema_text_file: "FileSchema text_file = [''Please upload a video file.'']"
  by (simp add: FileSchema_def text_file_def MAX_BYTES_def startsWith_def endsWith_def)

lemma MetadataSchema_meta_json:
  "\<not> isNaN d \<Longrightarrow> \<not> lt_zero d \<Longrightarrow>
   MetadataSchema (Some (meta_json d)) =
     Some \<lparr>width = Finite 1920, height = Finite 1080, durationSeconds = d, frameRate = Finite 30\<rparr>"
  by (simp add: MetadataSchema_def meta_json_def get_prop_def z_nonnegative_def z_int_def
      z_number_def)

lemma AnalyzeResponseSchema_body_json:
  "i \<noteq> [] \<Longrightarrow> \<not> isNaN d \<Longrightarrow> \<not> lt_zero d \<Longrightarrow>
   AnalyzeResponseSchema (body_json i d) =
     Some \<lparr>resp_id = i, metadata =
       \<lparr>width = Finite 1920, height = Finite 1080, durationSeconds = d, frameRate = Finite 30\<rparr>\<rparr>"
  by (cases i) (simp_all add: AnalyzeResponseSchema_def body_json_def get_prop_def
      z_string_min_def MetadataSchema_meta_json)

lemma select_clip: "onFileChange (Some clip) initial = initial\<lparr>file_st := Some clip\<rparr>"
  by (simp add: onFileChange_def FileSchema_clip initial_def)

lemma run_upload:
  "i \<noteq> [] \<Longrightarrow> \<not> isNaN d \<Longrightarrow> \<not> lt_zero d \<Longrightarrow>
   run ''https://m.run''
     [FileChange (Some clip), UploadStart, UploadSettle (Resolved (ok_response (body_json i d)))] =
   initial\<lparr>file_st := Some clip, response := Some \<lparr>resp_id = i, metadata =
       \<lparr>width = Finite 1920, height = Finite 1080, durationSeconds = d, frameRate = Finite 30\<rparr>\<rparr>\<rparr>"
proof -
  assume a: "i \<noteq> []" "\<not> isNaN d" "\<not> lt_zero d"
  have "step ''https://m.run'' (initial\<lparr>file_st := Some clip\<rparr>) UploadStart =
      initial\<lparr>file_st := Some clip, loading := True\<rparr>"
    by (simp add: onUpload_start_def initial_def)
  moreover have "step ''https://m.run'' (initial\<lparr>file_st := Some clip, loading := True\<rparr>)
      (UploadSettle (Resolved (ok_response (body_json i d)))) =
      initial\<lparr>file_st := Some clip, response := Some \<lparr>resp_id = i, metadata =
       \<lparr>width = Finite 1920, height = Finite 1080, durationSeconds = d, frameRate = Finite 30\<rparr>\<rparr>\<rparr>"
    using a by (simp add: onUpload_settle_def analyze_attempt_def ok_response_def
        AnalyzeResponseSchema_body_json initial_def)
  ultimately show ?thesis
    by (simp add: run_def select_clip)
qed

subsection \<open>File validation\<close>

text \<open>
  C1. The size refinement of the file validator rejects a selected file exactly when its
  size exceeds 10 MiB, that is 10485760 bytes: its message is among the issues exactly
  for the files larger than that, and for those files the handler stores the message as
  the error and keeps no file.
\<close>

theorem size_check_exact:
  "MAX_BYTES = 10485760 \<and>
   (''Video must be 10MB or less.'' \<in> set (FileSchema f)) = (10485760 < file_size f) \<and>
   (10485760 < file_size f \<longrightarrow>
      error (onFileChange (Some f) s) = Some ''Video must be 10MB or less.'' \<and>
      file_st (onFileChange (Some f) s) = None)"
  by (auto simp: MAX_BYTES_value FileSchema_def onFileChange_def Let_def)

theorem size_check_exact_witness:
  "10485760 < file_size big_clip \<and>
   ''Video must be 10MB or less.'' \<in> set (FileSchema big_clip) \<and>
   ''Video must be 10MB or less.'' \<notin> set (FileSchema (big_clip\<lparr>file_size := 10485760\<rparr>)) \<and>
   error (onFileChange (Some big_clip) initial) = Some ''Video must be 10MB or less.'' \<and>
   file_st (onFileChange (Some big_clip) initial) = None"
  using size_check_exact [of big_clip initial, THEN conjunct2]
    size_check_exact [of "big_clip\<lparr>file_size := 10485760\<rparr>" initial, THEN conjunct2]
  by (simp add: big_clip_def)

text \<open>
  C3. The type refinement rejects a selected file exactly when its declared content type
  does not start with \<^verbatim>\<open>video/\<close> and its name does not end in \<^verbatim>\<open>.mp4\<close>, the
  one extension the page recognises; a file within the size limit is kept exactly when
  one of the two holds, and is otherwise answered with the message of the refinement.
\<close>

theorem type_check_exact:
  "(''Please upload a video file.'' \<in> set (FileSchema f)) =
     (\<not> prefix ''video/'' (file_type f) \<and> \<not> suffix ''.mp4'' (file_name f)) \<and>
   (file_size f \<le> MAX_BYTES \<longrightarrow>
      (file_st (onFileChange (Some f) s) = Some f) =
        (prefix ''video/'' (file_type f) \<or> suffix ''.mp4'' (file_name f)) \<and>
      (error (onFileChange (Some f) s) = Some ''Please upload a video file.'') =
        (\<not> prefix ''video/'' (file_type f) \<and> \<not> suffix ''.mp4'' (file_name f)))"
  by (auto simp: FileSchema_def onFileChange_def Let_def startsWith_prefix endsWith_suffix)

theorem type_check_exact_witness:
  "file_size text_file \<le> MAX_BYTES \<and>
   \<not> prefix ''video/'' (file_type text_file) \<and> \<not> suffix ''.mp4'' (file_name text_file) \<and>
   ''Please upload a video file.'' \<in> set (FileSchema text_file) \<and>
   error (onFileChange (Some text_file) initial) = Some ''Please upload a video file.'' \<and>
   file_st (onFileChange (Some text_file) initial) \<noteq> Some text_file"
proof -
  have "file_size text_file \<le> MAX_BYTES"
    by (simp add: text_file_def MAX_BYTES_def)
  moreover have "\<not> prefix ''video/'' (file_type text_file)"
    by (simp add: text_file_def)
  moreover have "\<not> suffix ''.mp4'' (file_name text_file)"
    by (simp add: text_file_def suffix_to_prefix)
  ultimately show ?thesis
    using type_check_exact [of text_file initial] by simp
qed

text \<open>
  C4. A file that fails validation leaves a descriptive error (the message of the first
  failed refinement) and no selected file; the upload action returns early whenever no
  file is selected, so on the state after the rejection it changes nothing and issues no
  request.
\<close>

theorem rejected_file_no_request:
  "FileSchema f \<noteq> [] \<Longrightarrow>
     file_st (onFileChange (Some f) s) = None \<and>
     error (onFileChange (Some f) s) =
       Some (if MAX_BYTES < file_size f then ''Video must be 10MB or less.''
             else ''Please upload a video file.'') \<and>
     (file_st t = None \<longrightarrow> onUpload base fetch t = (t, [])) \<and>
     onUpload base fetch (onFileChange (Some f) s) = (onFileChange (Some f) s, [])"
  by (auto simp: FileSchema_def onFileChange_def onUpload_no_file Let_def split: if_splits)

theorem rejected_file_no_request_witness:
  "FileSchema text_file \<noteq> [] \<and>
   file_st initial = None \<and>
   error (onFileChange (Some text_file) initial) = Some ''Please upload a video file.'' \<and>
   snd (onUpload ''https://m.run'' (\<lambda>req. Resolved health_ok)
          (onFileChange (Some text_file) initial)) = []"
  using rejected_file_no_request [of text_file initial initial "''https://m.run''"
      "\<lambda>req. Resolved health_ok"]
  by (simp add: FileSchema_text_file) (simp add: initial_def text_file_def MAX_BYTES_def)




subsection \<open>Base URL\<close>

text \<open>
  C10. For a configured value that does not end in a slash, the value itself and the
  value with one slash appended normalise to the same base URL, so the URLs for
  \<^verbatim>\<open>/health\<close>, \<^verbatim>\<open>/analyze\<close> and \<^verbatim>\<open>/video/{id}\<close> built from them are
  identical; only one slash is stripped, so with two slashes appended one remains.
\<close>

theorem baseUrl_single_trailing_slash:
  "\<not> endsWith raw ''/'' \<Longrightarrow>
     baseUrl (Some raw) = raw \<and>
     baseUrl (Some (raw @ ''/'')) = raw \<and>
     baseUrl (Some (raw @ ''//'')) = raw @ ''/'' \<and>
     healthUrl (baseUrl (Some (raw @ ''/''))) = healthUrl (baseUrl (Some raw)) \<and>
     analyzeUrl (baseUrl (Some (raw @ ''/''))) = analyzeUrl (baseUrl (Some raw)) \<and>
     videoUrl (baseUrl (Some (raw @ ''/''))) s = videoUrl (baseUrl (Some raw)) s"
  using strip_trailing_slash_snoc [of raw] strip_trailing_slash_snoc [of "raw @ ''/''"]
  by (simp add: baseUrl_def strip_trailing_slash_id)

theorem baseUrl_single_trailing_slash_witness:
  "\<not> endsWith ''https://m.run'' ''/'' \<and>
   baseUrl (Some ''https://m.run/'') = ''https://m.run'' \<and>
   baseUrl (Some ''https://m.run//'') = ''https://m.run/'' \<and>
   healthUrl (baseUrl (Some ''https://m.run/'')) = ''https://m.run/health'' \<and>
   healthUrl (baseUrl (Some ''https://m.run'')) = ''https://m.run/health''"
  using baseUrl_single_trailing_slash [of "''https://m.run''" initial]
  by (simp add: endsWith_def healthUrl_def)

subsection \<open>The boundary parse of the analyze response\<close>

text \<open>
  C2, as amended. The boundary parse accepts a body exactly when it is an object with a
  non-empty string id and a metadata object whose width and height are finite
  non-negative integers and whose duration and frame rate are non-negative and not NaN
  (each a finite non-negative number or plus infinity), and the accepted data are the
  values of the body unchanged. A body one of whose four metadata fields is missing, is
  not a number, or is outside this shape (negative, NaN, a width or height that is not an
  integer or not finite) is rejected. Every response the page holds after any run was
  accepted by the parse, so a rejected one is never displayed. (The display functions
  \<^verbatim>\<open>formatDuration\<close> and \<^verbatim>\<open>formatNumber\<close> test \<^verbatim>\<open>Number.isFinite\<close> and
  print a dash otherwise.)
\<close>

theorem accepted_metadata_shape:
  "(AnalyzeResponseSchema j = Some r) =
     (\<exists>ps ms. j = JObject ps \<and>
        get_prop ps ''id'' = Some (JString (resp_id r)) \<and> resp_id r \<noteq> [] \<and>
        get_prop ps ''metadata'' = Some (JObject ms) \<and>
        get_prop ms ''width'' = Some (JNumber (width (metadata r))) \<and>
        get_prop ms ''height'' = Some (JNumber (height (metadata r))) \<and>
        get_prop ms ''durationSeconds'' = Some (JNumber (durationSeconds (metadata r))) \<and>
        get_prop ms ''frameRate'' = Some (JNumber (frameRate (metadata r))) \<and>
        (\<exists>n::nat. width (metadata r) = Finite (of_nat n)) \<and>
        (\<exists>n::nat. height (metadata r) = Finite (of_nat n)) \<and>
        (durationSeconds (metadata r) = PosInfinity \<or>
           (\<exists>q. durationSeconds (metadata r) = Finite q \<and> 0 \<le> q)) \<and>
        (frameRate (metadata r) = PosInfinity \<or>
           (\<exists>q. frameRate (metadata r) = Finite q \<and> 0 \<le> q))) \<and>
   (get_prop ps' ''metadata'' = Some (JObject ms') \<and>
    ((\<forall>n::nat. get_prop ms' ''width'' \<noteq> Some (JNumber (Finite (of_nat n)))) \<or>
     (\<forall>n::nat. get_prop ms' ''height'' \<noteq> Some (JNumber (Finite (of_nat n)))) \<or>
     (get_prop ms' ''durationSeconds'' \<noteq> Some (JNumber PosInfinity) \<and>
      (\<forall>q. 0 \<le> q \<longrightarrow> get_prop ms' ''durationSeconds'' \<noteq> Some (JNumber (Finite q)))) \<or>
     (get_prop ms' ''frameRate'' \<noteq> Some (JNumber PosInfinity) \<and>
      (\<forall>q. 0 \<le> q \<longrightarrow> get_prop ms' ''frameRate'' \<noteq> Some (JNumber (Finite q))))) \<longrightarrow>
    AnalyzeResponseSchema (JObject ps') = None) \<and>
   (response (run base evs) = Some r' \<longrightarrow> (\<exists>j'. AnalyzeResponseSchema j' = Some r'))"
proof -
  have a: "(AnalyzeResponseSchema j = Some r) =
     (\<exists>ps ms. j = JObject ps \<and>
        get_prop ps ''id'' = Some (JString (resp_id r)) \<and> resp_id r \<noteq> [] \<and>
        get_prop ps ''metadata'' = Some (JObject ms) \<and>
        get_prop ms ''width'' = Some (JNumber (width (metadata r))) \<and>
        get_prop ms ''height'' = Some (JNumber (height (metadata r))) \<and>
        get_prop ms ''durationSeconds'' = Some (JNumber (durationSeconds (metadata r))) \<and>
        get_prop ms ''frameRate'' = Some (JNumber (frameRate (metadata r))) \<and>
        (\<exists>n::nat. width (metadata r) = Finite (of_nat n)) \<and>
        (\<exists>n::nat. height (metadata r) = Finite (of_nat n)) \<and>
        (durationSeconds (metadata r) = PosInfinity \<or>
           (\<exists>q. durationSeconds (metadata r) = Finite q \<and> 0 \<le> q)) \<and>
        (frameRate (metadata r) = PosInfinity \<or>
           (\<exists>q. frameRate (metadata r) = Finite q \<and> 0 \<le> q)))" for j r
    unfolding AnalyzeResponseSchema_iff MetadataSchema_iff z_nonnegative_int_iff
      z_nonnegative_number_iff
    by blast
  have b: "AnalyzeResponseSchema (JObject ps') = None"
    if m: "get_prop ps' ''metadata'' = Some (JObject ms')"
      and bad: "(\<forall>n::nat. get_prop ms' ''width'' \<noteq> Some (JNumber (Finite (of_nat n)))) \<or>
     (\<forall>n::nat. get_prop ms' ''height'' \<noteq> Some (JNumber (Finite (of_nat n)))) \<or>
     (get_prop ms' ''durationSeconds'' \<noteq> Some (JNumber PosInfinity) \<and>
      (\<forall>q. 0 \<le> q \<longrightarrow> get_prop ms' ''durationSeconds'' \<noteq> Some (JNumber (Finite q)))) \<or>
     (get_prop ms' ''frameRate'' \<noteq> Some (JNumber PosInfinity) \<and>
      (\<forall>q. 0 \<le> q \<longrightarrow> get_prop ms' ''frameRate'' \<noteq> Some (JNumber (Finite q))))"
  proof (rule ccontr)
    assume "AnalyzeResponseSchema (JObject ps') \<noteq> None"
    then obtain r0 where "AnalyzeResponseSchema (JObject ps') = Some r0"
      by auto
    then obtain ms where ms: "get_prop ps' ''metadata'' = Some (JObject ms)"
        "get_prop ms ''width'' = Some (JNumber (width (metadata r0)))"
        "get_prop ms ''height'' = Some (JNumber (height (metadata r0)))"
        "get_prop ms ''durationSeconds'' = Some (JNumber (durationSeconds (metadata r0)))"
        "get_prop ms ''frameRate'' = Some (JNumber (frameRate (metadata r0)))"
        "\<exists>n::nat. width (metadata r0) = Finite (of_nat n)"
        "\<exists>n::nat. height (metadata r0) = Finite (of_nat n)"
        "durationSeconds (metadata r0) = PosInfinity \<or>
           (\<exists>q. durationSeconds (metadata r0) = Finite q \<and> 0 \<le> q)"
        "frameRate (metadata r0) = PosInfinity \<or>
           (\<exists>q. frameRate (metadata r0) = Finite q \<and> 0 \<le> q)"
      unfolding a by blast
    from ms(1) m have "ms = ms'"
      by simp
    with ms(2-9) bad show False
      by metis
  qed
  from a b show ?thesis
    using run_response [of base evs r'] by blast
qed

theorem accepted_metadata_shape_witness:
  "AnalyzeResponseSchema (body_json ''a'' (Finite 5)) =
     Some \<lparr>resp_id = ''a'', metadata = \<lparr>width = Finite 1920, height = Finite 1080,
       durationSeconds = Finite 5, frameRate = Finite 30\<rparr>\<rparr> \<and>
   (\<exists>n::nat. Finite 1920 = Finite (of_nat n)) \<and>
   AnalyzeResponseSchema (JObject (body_props
       (meta_props (Finite (- 1920)) (Finite 1080) (Finite 5) (Finite 30)))) = None \<and>
   AnalyzeResponseSchema (JObject (body_props
       (meta_props (Finite 1920) (Finite (1 / 2)) (Finite 5) (Finite 30)))) = None \<and>
   AnalyzeResponseSchema (JObject (body_props
       (meta_props (Finite 1920) (Finite 1080) (Finite (- 1)) (Finite 30)))) = None \<and>
   AnalyzeResponseSchema (JObject (body_props
       (meta_props (Finite 1920) (Finite 1080) (Finite 5) NaN))) = None \<and>
   response (run ''https://m.run'' [FileChange (Some clip), UploadStart,
       UploadSettle (Resolved (ok_response (body_json ''a'' (Finite 5))))]) =
     Some \<lparr>resp_id = ''a'', metadata = \<lparr>width = Finite 1920, height = Finite 1080,
       durationSeconds = Finite 5, frameRate = Finite 30\<rparr>\<rparr> \<and>
   (\<exists>j'. AnalyzeResponseSchema j' = Some \<lparr>resp_id = ''a'', metadata = \<lparr>width = Finite 1920,
       height = Finite 1080, durationSeconds = Finite 5, frameRate = Finite 30\<rparr>\<rparr>)"
proof -
  let ?r = "\<lparr>resp_id = ''a'', metadata = \<lparr>width = Finite 1920, height = Finite 1080,
       durationSeconds = Finite 5, frameRate = Finite 30\<rparr>\<rparr>"
  let ?evs = "[FileChange (Some clip), UploadStart,
       UploadSettle (Resolved (ok_response (body_json ''a'' (Finite 5))))]"
  let ?m1 = "meta_props (Finite (- 1920)) (Finite 1080) (Finite 5) (Finite 30)"
  let ?m2 = "meta_props (Finite 1920) (Finite (1 / 2)) (Finite 5) (Finite 30)"
  let ?m3 = "meta_props (Finite 1920) (Finite 1080) (Finite (- 1)) (Finite 30)"
  let ?m4 = "meta_props (Finite 1920) (Finite 1080) (Finite 5) NaN"
  have acc: "AnalyzeResponseSchema (body_json ''a'' (Finite 5)) = Some ?r"
    by (simp add: AnalyzeResponseSchema_body_json)
  have held: "response (run ''https://m.run'' ?evs) = Some ?r"
    by (simp add: run_upload)
  have meta: "get_prop (body_props ms) ''metadata'' = Some (JObject ms)" for ms
    by (simp add: get_prop_def body_props_def)
  have bad1: "\<forall>n::nat. get_prop ?m1 ''width'' \<noteq> Some (JNumber (Finite (of_nat n)))"
    by (simp add: get_prop_def meta_props_def negative_not_nat)
  have g2: "get_prop ?m2 ''height'' = Some (JNumber (Finite (1 / 2)))"
    unfolding get_prop_def meta_props_def by simp
  have bad2: "\<forall>n::nat. get_prop ?m2 ''height'' \<noteq> Some (JNumber (Finite (of_nat n)))"
    by (simp only: g2 option.inject json.inject jsnum.inject half_not_nat simp_thms)
  have bad3: "get_prop ?m3 ''durationSeconds'' \<noteq> Some (JNumber PosInfinity) \<and>
      (\<forall>q. 0 \<le> q \<longrightarrow> get_prop ?m3 ''durationSeconds'' \<noteq> Some (JNumber (Finite q)))"
    by (auto simp: get_prop_def meta_props_def)
  have bad4: "get_prop ?m4 ''frameRate'' \<noteq> Some (JNumber PosInfinity) \<and>
      (\<forall>q. 0 \<le> q \<longrightarrow> get_prop ?m4 ''frameRate'' \<noteq> Some (JNumber (Finite q)))"
    by (simp add: get_prop_def meta_props_def)
  have shape: "\<exists>n::nat. width (metadata ?r) = Finite (of_nat n)"
    and held': "\<exists>j'. AnalyzeResponseSchema j' = Some ?r"
    and rej1: "AnalyzeResponseSchema (JObject (body_props ?m1)) = None"
    using acc held meta [of ?m1] bad1
      accepted_metadata_shape [of "body_json ''a'' (Finite 5)" ?r "body_props ?m1" ?m1
        "''https://m.run''" ?evs ?r]
    by blast+
  have rej2: "AnalyzeResponseSchema (JObject (body_props ?m2)) = None"
    using meta [of ?m2] bad2 accepted_metadata_shape [of _ _ "body_props ?m2" ?m2]
    by blast
  have rej3: "AnalyzeResponseSchema (JObject (body_props ?m3)) = None"
    using meta [of ?m3] bad3 accepted_metadata_shape [of _ _ "body_props ?m3" ?m3]
    by blast
  have rej4: "AnalyzeResponseSchema (JObject (body_props ?m4)) = None"
    using meta [of ?m4] bad4 accepted_metadata_shape [of _ _ "body_props ?m4" ?m4]
    by blast
  from shape have "\<exists>n::nat. Finite 1920 = Finite (of_nat n)"
    by simp
  with acc held held' rej1 rej2 rej3 rej4 show ?thesis
    by blast
qed

text \<open>
  The claim as first stated fails: a body whose \<^verbatim>\<open>durationSeconds\<close> is plus infinity,
  as JSON text such as \<^verbatim>\<open>1e999\<close> parses to, is accepted and held as the response.
\<close>

theorem infinite_duration_counterexample:
  "response (run ''https://m.run'' [FileChange (Some clip), UploadStart,
       UploadSettle (Resolved (ok_response (body_json ''a'' PosInfinity)))]) =
     Some \<lparr>resp_id = ''a'', metadata = \<lparr>width = Finite 1920, height = Finite 1080,
       durationSeconds = PosInfinity, frameRate = Finite 30\<rparr>\<rparr> \<and>
   \<not> isFinite PosInfinity"
  by (simp add: run_upload)

text \<open>
  C5. When the request was sent and answered with an ok status, and the body either does
  not parse as JSON, or lies outside the response contract, or is rejected by the schema,
  the upload ends with an error, no response and no video URL: nothing of the body
  reaches the state.
\<close>

theorem malformed_body_rejected:
  "file_st s = Some f \<Longrightarrow> base \<noteq> [] \<Longrightarrow>
   fetch \<lparr>req_method = ''POST'', req_url = analyzeUrl base, req_body = Some f\<rparr> = Resolved res \<Longrightarrow>
   res_ok res \<Longrightarrow>
   res_json res = Inl e \<or>
     (\<exists>j. res_json res = Inr j \<and> (\<not> spec_response_contract j \<or> AnalyzeResponseSchema j = None)) \<Longrightarrow>
   error (fst (onUpload base fetch s)) =
     Some (case res_json res of Inl e \<Rightarrow> upload_message e
           | Inr j \<Rightarrow> ''Modal response failed validation.'') \<and>
   response (fst (onUpload base fetch s)) = None \<and>
   videoUrl base (fst (onUpload base fetch s)) = None \<and>
   loading (fst (onUpload base fetch s)) = False"
  by (auto simp: onUpload_sent analyze_attempt_def videoUrl_def dest: outside_contract_rejected)

theorem malformed_body_rejected_witness:
  "file_st (initial\<lparr>file_st := Some clip\<rparr>) = Some clip \<and>
   res_ok (ok_response body_string_width) \<and>
   \<not> spec_response_contract body_string_width \<and>
   error (fst (onUpload ''https://m.run'' (\<lambda>req. Resolved (ok_response body_string_width))
             (initial\<lparr>file_st := Some clip\<rparr>))) = Some ''Modal response failed validation.'' \<and>
   response (fst (onUpload ''https://m.run'' (\<lambda>req. Resolved (ok_response body_string_width))
             (initial\<lparr>file_st := Some clip\<rparr>))) = None"
proof -
  have n: "\<not> spec_response_contract body_string_width"
    by (simp add: spec_response_contract_def body_string_width_def get_prop_def
        spec_is_integer_def)
  have "res_json (ok_response body_string_width) = Inl NonError \<or>
     (\<exists>j. res_json (ok_response body_string_width) = Inr j \<and>
        (\<not> spec_response_contract j \<or> AnalyzeResponseSchema j = None))"
    using n by (simp add: ok_response_def)
  from malformed_body_rejected [of "initial\<lparr>file_st := Some clip\<rparr>" clip "''https://m.run''"
      "\<lambda>req. Resolved (ok_response body_string_width)" "ok_response body_string_width" NonError,
      OF _ _ _ _ this]
  show ?thesis
    using n by (simp add: ok_response_def)
qed

text \<open>
  C8. A body whose \<^verbatim>\<open>id\<close> is the empty string is rejected by the schema whatever
  its metadata; an upload answered with it ends with the validation error and no
  response; and after every run of the page a response that is held has a non-empty id.
\<close>

theorem empty_id_rejected:
  "(get_prop ps ''id'' = Some (JString []) \<longrightarrow> AnalyzeResponseSchema (JObject ps) = None) \<and>
   (file_st s = Some f \<and> base \<noteq> [] \<and>
    fetch \<lparr>req_method = ''POST'', req_url = analyzeUrl base, req_body = Some f\<rparr> = Resolved res \<and>
    res_ok res \<and> res_json res = Inr (JObject ps) \<and> get_prop ps ''id'' = Some (JString []) \<longrightarrow>
      error (fst (onUpload base fetch s)) = Some ''Modal response failed validation.'' \<and>
      response (fst (onUpload base fetch s)) = None) \<and>
   (response (run base evs) = Some r \<longrightarrow> resp_id r \<noteq> [])"
proof -
  have a: "AnalyzeResponseSchema (JObject ps) = None" if "get_prop ps ''id'' = Some (JString [])"
    using that by (simp add: AnalyzeResponseSchema_def z_string_min_def)
  have b: "error (fst (onUpload base fetch s)) = Some ''Modal response failed validation.'' \<and>
      response (fst (onUpload base fetch s)) = None"
    if "file_st s = Some f" "base \<noteq> []"
      "fetch \<lparr>req_method = ''POST'', req_url = analyzeUrl base, req_body = Some f\<rparr> = Resolved res"
      "res_ok res" "res_json res = Inr (JObject ps)" "get_prop ps ''id'' = Some (JString [])"
    using that a by (simp add: onUpload_sent analyze_attempt_def)
  have c: "resp_id r \<noteq> []" if "response (run base evs) = Some r"
  proof -
    from run_response [OF that] obtain j where "AnalyzeResponseSchema j = Some r" ..
    from AnalyzeResponseSchema_Some [OF this] show ?thesis
      by blast
  qed
  from a b c show ?thesis
    by blast
qed

theorem empty_id_rejected_witness:
  "get_prop [(''id'', JString []), (''metadata'', meta_json (Finite 5))] ''id'' = Some (JString []) \<and>
   MetadataSchema (Some (meta_json (Finite 5))) \<noteq> None \<and>
   AnalyzeResponseSchema (body_json [] (Finite 5)) = None \<and>
   error (fst (onUpload ''https://m.run'' (\<lambda>req. Resolved (ok_response (body_json [] (Finite 5))))
             (initial\<lparr>file_st := Some clip\<rparr>))) = Some ''Modal response failed validation.'' \<and>
   response (fst (onUpload ''https://m.run''
             (\<lambda>req. Resolved (ok_response (body_json [] (Finite 5))))
             (initial\<lparr>file_st := Some clip\<rparr>))) = None \<and>
   response (run ''https://m.run'' [FileChange (Some clip), UploadStart,
       UploadSettle (Resolved (ok_response (body_json ''a'' (Finite 5))))]) =
     Some \<lparr>resp_id = ''a'', metadata = \<lparr>width = Finite 1920, height = Finite 1080,
       durationSeconds = Finite 5, frameRate = Finite 30\<rparr>\<rparr> \<and>
   ''a'' \<noteq> []"
proof -
  let ?ps = "[(''id'', JString []), (''metadata'', meta_json (Finite 5))]"
  let ?s = "initial\<lparr>file_st := Some clip\<rparr>"
  let ?fetch = "\<lambda>req::request. Resolved (ok_response (body_json [] (Finite 5)))"
  have g: "get_prop ?ps ''id'' = Some (JString [])"
    by (simp add: get_prop_def)
  have m: "MetadataSchema (Some (meta_json (Finite 5))) \<noteq> None"
    by (simp add: MetadataSchema_meta_json)
  have r: "response (run ''https://m.run'' [FileChange (Some clip), UploadStart,
       UploadSettle (Resolved (ok_response (body_json ''a'' (Finite 5))))]) =
     Some \<lparr>resp_id = ''a'', metadata = \<lparr>width = Finite 1920, height = Finite 1080,
       durationSeconds = Finite 5, frameRate = Finite 30\<rparr>\<rparr>"
    by (simp add: run_upload)
  have "AnalyzeResponseSchema (body_json [] (Finite 5)) = None \<and>
     error (fst (onUpload ''https://m.run'' ?fetch ?s)) = Some ''Modal response failed validation.'' \<and>
     response (fst (onUpload ''https://m.run'' ?fetch ?s)) = None"
    using g empty_id_rejected [of ?ps ?s clip "''https://m.run''" ?fetch
        "ok_response (body_json [] (Finite 5))"]
    by (simp add: body_json_def ok_response_def)
  with g m r show ?thesis
    by simp
qed

subsection \<open>The video URL\<close>

text \<open>
  C7. The video URL is the base URL, then \<^verbatim>\<open>/video/\<close>, then the id of the held
  response; after an upload whose body the schema accepts, that id is the string found
  under \<^verbatim>\<open>id\<close> in the body, character for character.
\<close>

theorem video_url_uses_id_unchanged:
  "videoUrl base s = map_option (\<lambda>r. base @ ''/video/'' @ resp_id r) (response s) \<and>
   (file_st s = Some f \<and> base \<noteq> [] \<and>
    fetch \<lparr>req_method = ''POST'', req_url = analyzeUrl base, req_body = Some f\<rparr> = Resolved res \<and>
    res_ok res \<and> res_json res = Inr (JObject ps) \<and> AnalyzeResponseSchema (JObject ps) \<noteq> None \<longrightarrow>
    (\<exists>i. get_prop ps ''id'' = Some (JString i) \<and>
         videoUrl base (fst (onUpload base fetch s)) = Some (base @ ''/video/'' @ i)))"
proof -
  have a: "videoUrl base s = map_option (\<lambda>r. base @ ''/video/'' @ resp_id r) (response s)"
    by (simp add: videoUrl_def split: option.splits)
  have b: "\<exists>i. get_prop ps ''id'' = Some (JString i) \<and>
         videoUrl base (fst (onUpload base fetch s)) = Some (base @ ''/video/'' @ i)"
    if h: "file_st s = Some f" "base \<noteq> []"
      "fetch \<lparr>req_method = ''POST'', req_url = analyzeUrl base, req_body = Some f\<rparr> = Resolved res"
      "res_ok res" "res_json res = Inr (JObject ps)" "AnalyzeResponseSchema (JObject ps) \<noteq> None"
  proof -
    from h(6) obtain r where r: "AnalyzeResponseSchema (JObject ps) = Some r"
      by auto
    from AnalyzeResponseSchema_Some [OF r]
    have "get_prop ps ''id'' = Some (JString (resp_id r))"
      by auto
    moreover have "videoUrl base (fst (onUpload base fetch s)) =
        Some (base @ ''/video/'' @ resp_id r)"
      using h r by (simp add: onUpload_sent analyze_attempt_def videoUrl_def)
    ultimately show ?thesis
      by blast
  qed
  from a b show ?thesis
    by blast
qed

theorem video_url_uses_id_unchanged_witness:
  "AnalyzeResponseSchema (body_json ''a/../b?c=%20'' (Finite 5)) \<noteq> None \<and>
   get_prop [(''id'', JString ''a/../b?c=%20''), (''metadata'', meta_json (Finite 5))] ''id'' =
     Some (JString ''a/../b?c=%20'') \<and>
   videoUrl ''https://m.run'' (fst (onUpload ''https://m.run''
       (\<lambda>req. Resolved (ok_response (body_json ''a/../b?c=%20'' (Finite 5))))
       (initial\<lparr>file_st := Some clip\<rparr>))) = Some ''https://m.run/video/a/../b?c=%20''"
proof -
  let ?ps = "[(''id'', JString ''a/../b?c=%20''), (''metadata'', meta_json (Finite 5))]"
  let ?s = "initial\<lparr>file_st := Some clip\<rparr>"
  let ?fetch = "\<lambda>req::request. Resolved (ok_response (body_json ''a/../b?c=%20'' (Finite 5)))"
  have g: "get_prop ?ps ''id'' = Some (JString ''a/../b?c=%20'')"
    by (simp add: get_prop_def)
  have p: "AnalyzeResponseSchema (body_json ''a/../b?c=%20'' (Finite 5)) \<noteq> None"
    by (simp add: AnalyzeResponseSchema_body_json)
  then have "AnalyzeResponseSchema (JObject ?ps) \<noteq> None"
    by (simp add: body_json_def)
  then have "\<exists>i. get_prop ?ps ''id'' = Some (JString i) \<and>
      videoUrl ''https://m.run'' (fst (onUpload ''https://m.run'' ?fetch ?s)) =
        Some (''https://m.run'' @ ''/video/'' @ i)"
    using video_url_uses_id_unchanged [of "''https://m.run''" ?s clip ?fetch
        "ok_response (body_json ''a/../b?c=%20'' (Finite 5))" ?ps]
    by (simp add: body_json_def ok_response_def)
  with g p show ?thesis
    by auto
qed

subsection \<open>The health poll\<close>

text \<open>
  C6, as amended. A health poll that settles while its effect is still mounted marks the
  service as up exactly when the fetch resolved with an ok status and a JSON body that is
  an object whose \<^verbatim>\<open>status\<close> is the string \<^verbatim>\<open>ok\<close>, and as offline on a failed
  fetch, a status that is not ok, or a body that fails to parse; it then records the time
  and ends the checking state. A poll that settles after the cleanup of its effect leaves
  the mark as it was.
\<close>

theorem health_poll_marks_service:
  "isModalUp (fst (checkHealth True now base fetch s)) =
     (\<exists>res ps. fetch \<lparr>req_method = ''GET'', req_url = healthUrl base, req_body = None\<rparr> =
          Resolved res \<and>
        res_ok res \<and> res_json res = Inr (JObject ps) \<and>
        get_prop ps ''status'' = Some (JString ''ok'')) \<and>
   lastCheckedAt (fst (checkHealth True now base fetch s)) = Some now \<and>
   isChecking (fst (checkHealth True now base fetch s)) = False \<and>
   isModalUp (fst (checkHealth False now base fetch s)) = isModalUp s"
  by (auto simp: checkHealth_def checkHealth_start_def checkHealth_settle_def Let_def
      health_attempt_def HealthResponseSchema_def z_literal_def
      split: fetch_result.splits sum.splits json.splits option.splits if_splits)

theorem health_poll_marks_service_witness:
  "isModalUp (fst (checkHealth True 7 ''https://m.run'' (\<lambda>req. Resolved health_ok) initial)) \<and>
   \<not> isModalUp (fst (checkHealth True 7 ''https://m.run''
        (\<lambda>req. Resolved (health_ok\<lparr>res_ok := False, res_status := 503\<rparr>)) initial)) \<and>
   \<not> isModalUp (fst (checkHealth True 7 ''https://m.run''
        (\<lambda>req. Rejected (Error ''Failed to fetch'')) initial))"
  using health_poll_marks_service [of 7 "''https://m.run''" "\<lambda>req. Resolved health_ok" initial]
    health_poll_marks_service [of 7 "''https://m.run''"
      "\<lambda>req. Resolved (health_ok\<lparr>res_ok := False, res_status := 503\<rparr>)" initial]
    health_poll_marks_service [of 7 "''https://m.run''"
      "\<lambda>req. Rejected (Error ''Failed to fetch'')" initial]
  by (simp add: health_ok_def ok_response_def get_prop_def)

text \<open>
  The claim as first stated fails: two polls are in flight, the first effect has been
  cleaned up, the poll of the second effect succeeds, and then the poll of the first
  fails; the service stays marked as up after the failed poll.
\<close>

theorem unmounted_poll_counterexample:
  "isModalUp (run ''https://m.run''
     [Mount, HealthStart, HealthStart, HealthSettle True 1 (Resolved health_ok),
      HealthSettle False 2 (Rejected (Error ''Failed to fetch''))])"
  by (simp add: run_def initial_def checkHealth_start_def checkHealth_settle_def
      health_attempt_def health_ok_def ok_response_def HealthResponseSchema_def z_literal_def
      get_prop_def)

end
